theory Spec2Isabelle
  imports Complex_Main
begin

section \<open>Data model of the food decision app\<close>

text \<open>
  The program is a single React component file, \<^verbatim>\<open>src/App.tsx\<close>. Its pure helpers
  (\<^verbatim>\<open>computeTags\<close>, \<^verbatim>\<open>preferenceText\<close>, \<^verbatim>\<open>filterPlaces\<close>, \<^verbatim>\<open>buildMapsQuery\<close>) become HOL
  functions; the component's \<^verbatim>\<open>useState\<close> cells become one record that every event
  handler takes and returns.

  Conventions of the embedding:
  \<^item> a TypeScript union of string literals is a datatype, \<^verbatim>\<open>T | null\<close> is \<open>T option\<close>;
  \<^item> the display distance, the one fractional number that the program prints, goes
    through a model of binary64 arithmetic and of JavaScript's number-to-text conversion;
  \<^item> every other JavaScript number that holds a fraction (richness, coordinates, the
    random outcomes, the warmth, the index of a pick) is a \<open>real\<close> with exact
    arithmetic;
  \<^item> a JavaScript string is a HOL \<open>string\<close> holding its UTF-8 bytes. The program only
    compares, concatenates and tests strings for emptiness, and these agree under the
    encoding. Every non-ASCII literal of the source is a named constant below, with an
    English gloss and its code points.
\<close>

datatype Temp = Hot | Cold
datatype Form = Soup | Dry
datatype Speed = Fast | Sit
datatype Style = Light | Rich
datatype Screen = Home | Choose | State | Recommend | Energy | Log
datatype Price = Budget | Mid

subsection \<open>Tag labels and preference texts\<close>

definition lbl_hot :: string where \<comment> \<open>hot food: U+71B1 U+98DF\<close>
  "lbl_hot =
    [CHR 0xE7, CHR 0x86, CHR 0xB1, CHR 0xE9, CHR 0xA3, CHR 0x9F]"

definition lbl_cold :: string where \<comment> \<open>cold food: U+51B7 U+98DF\<close>
  "lbl_cold =
    [CHR 0xE5, CHR 0x86, CHR 0xB7, CHR 0xE9, CHR 0xA3, CHR 0x9F]"

definition lbl_soup :: string where \<comment> \<open>soupy: U+6E6F U+7684\<close>
  "lbl_soup =
    [CHR 0xE6, CHR 0xB9, CHR 0xAF, CHR 0xE7, CHR 0x9A, CHR 0x84]"

definition lbl_dry :: string where \<comment> \<open>dry: U+4E7E U+7684\<close>
  "lbl_dry =
    [CHR 0xE4, CHR 0xB9, CHR 0xBE, CHR 0xE7, CHR 0x9A, CHR 0x84]"

definition lbl_rich :: string where \<comment> \<open>heavy taste: U+91CD U+53E3\<close>
  "lbl_rich =
    [CHR 0xE9, CHR 0x87, CHR 0x8D, CHR 0xE5, CHR 0x8F, CHR 0xA3]"

definition lbl_light :: string where \<comment> \<open>light and fresh: U+6E05 U+723D\<close>
  "lbl_light =
    [CHR 0xE6, CHR 0xB8, CHR 0x85, CHR 0xE7, CHR 0x88, CHR 0xBD]"

definition lbl_fast :: string where \<comment> \<open>quick: U+5FEB U+9EDE\<close>
  "lbl_fast =
    [CHR 0xE5, CHR 0xBF, CHR 0xAB, CHR 0xE9, CHR 0xBB, CHR 0x9E]"

definition lbl_sit :: string where \<comment> \<open>sit down to eat: U+5750 U+4E0B U+4F86 U+5403\<close>
  "lbl_sit =
    [CHR 0xE5, CHR 0x9D, CHR 0x90, CHR 0xE4, CHR 0xB8, CHR 0x8B, CHR 0xE4, CHR 0xBE, CHR 0x86,
     CHR 0xE5, CHR 0x90, CHR 0x83]"

definition txt_prefer_light :: string where \<comment> \<open>a bit lighter: U+6E05 U+723D U+4E00 U+9EDE\<close>
  "txt_prefer_light =
    [CHR 0xE6, CHR 0xB8, CHR 0x85, CHR 0xE7, CHR 0x88, CHR 0xBD, CHR 0xE4, CHR 0xB8, CHR 0x80,
     CHR 0xE9, CHR 0xBB, CHR 0x9E]"

definition txt_prefer_rich :: string where \<comment> \<open>a bit heavier: U+91CD U+53E3 U+4E00 U+9EDE\<close>
  "txt_prefer_rich =
    [CHR 0xE9, CHR 0x87, CHR 0x8D, CHR 0xE5, CHR 0x8F, CHR 0xA3, CHR 0xE4, CHR 0xB8, CHR 0x80,
     CHR 0xE9, CHR 0xBB, CHR 0x9E]"

definition txt_either :: string where \<comment> \<open>either is fine: U+90FD U+53EF U+4EE5\<close>
  "txt_either =
    [CHR 0xE9, CHR 0x83, CHR 0xBD, CHR 0xE5, CHR 0x8F, CHR 0xAF, CHR 0xE4, CHR 0xBB, CHR 0xA5]"

section \<open>Derivation of tags from the preference\<close>

record derived =
  tags :: "string list"
  style :: Style

text \<open>
  \<^verbatim>\<open>computeTags\<close> destructures its argument object into the four preference fields; the
  model takes them as four arguments. \<^verbatim>\<open>if (temp)\<close> tests for \<^verbatim>\<open>null\<close> (the two
  literals are non-empty, hence truthy). Each \<^verbatim>\<open>t.push\<close> appends at the end.
\<close>

definition computeTags :: "Temp option \<Rightarrow> Form option \<Rightarrow> real \<Rightarrow> Speed option \<Rightarrow> derived" where
  "computeTags temp form richness speed =
     (let sty = (if richness \<ge> 0.55 then Rich else Light);
          t0 = [];
          t1 = (case temp of None \<Rightarrow> t0
                | Some x \<Rightarrow> t0 @ [if x = Hot then lbl_hot else lbl_cold]);
          t2 = (case form of None \<Rightarrow> t1
                | Some x \<Rightarrow> t1 @ [if x = Soup then lbl_soup else lbl_dry]);
          t3 = t2 @ [if sty = Rich then lbl_rich else lbl_light];
          t4 = (case speed of None \<Rightarrow> t3
                | Some x \<Rightarrow> t3 @ [if x = Fast then lbl_fast else lbl_sit])
      in \<lparr>tags = t4, style = sty\<rparr>)"

definition preferenceText :: "real \<Rightarrow> string" where
  "preferenceText richness =
     (if richness < 0.4 then txt_prefer_light
      else if richness > 0.6 then txt_prefer_rich
      else txt_either)"


section \<open>JavaScript numbers and their text\<close>

text \<open>
  A finite JavaScript number is a binary64 value: a real with 53 significant bits. The
  result of an arithmetic operation is the exact result rounded to the nearest such
  value, ties going to the even significand. \<open>fl\<close> is this rounding. The exponent
  limits of the format (overflow, subnormal numbers) are not modelled: the numbers that
  the program computes lie between 0.4 and 3.2.
\<close>

text \<open>\<open>ndigits b a\<close> is the number of digits of the positive integer \<open>a\<close> in base \<open>b\<close>.\<close>

function ndigits :: "int \<Rightarrow> int \<Rightarrow> int" where
  "ndigits b a = (if 0 < a \<and> 1 < b then ndigits b (a div b) + 1 else 0)"
  by pat_completeness auto
termination
  by (relation "measure (\<lambda>(b, a). nat a)") (auto simp: int_div_less_self)

declare ndigits.simps [simp del]

definition power_of :: "int \<Rightarrow> int \<Rightarrow> real" where
  "power_of b e = (if 0 \<le> e then of_int b ^ nat e else 1 / of_int b ^ nat (- e))"

text \<open>The exponent \<open>e\<close> with \<open>b ^ e \<le> x < b ^ (e + 1)\<close>, for a positive \<open>x\<close>.\<close>

definition ilog :: "int \<Rightarrow> real \<Rightarrow> int" where
  "ilog b x = (if 1 \<le> x then ndigits b \<lfloor>x\<rfloor> - 1 else - ndigits b (\<lceil>1 / x\<rceil> - 1))"

definition round_half_even :: "real \<Rightarrow> int" where
  "round_half_even q =
     (let f = \<lfloor>q\<rfloor>; r = q - of_int f
      in if r < 1 / 2 then f
         else if 1 / 2 < r then f + 1
         else if even f then f else f + 1)"

definition fl :: "real \<Rightarrow> real" where
  "fl x =
     (if x = 0 then 0
      else let a = \<bar>x\<bar>; ulp = power_of 2 (ilog 2 a - 52);
               y = of_int (round_half_even (a / ulp)) * ulp
           in if x < 0 then - y else y)"

text \<open>The decimal digits of a natural number.\<close>

function digits :: "int \<Rightarrow> string" where
  "digits n = (if n < 10 then [''0123456789'' ! nat n]
               else digits (n div 10) @ [''0123456789'' ! nat (n mod 10)])"
  by pat_completeness auto
termination
  by (relation "measure nat") auto

declare digits.simps [simp del]

text \<open>
  \<^verbatim>\<open>Number::toString\<close> of the language standard, radix 10. For a positive \<open>x\<close> it
  takes integers \<open>n\<close>, \<open>k\<close>, \<open>s\<close> with \<open>k\<close> as small as possible such that \<open>s\<close> has
  \<open>k\<close> digits and \<open>s * 10 ^ (n - k)\<close> rounds to \<open>x\<close>; among several \<open>s\<close> the one
  nearest to \<open>x\<close>. \<open>decimal_candidate x n0 k\<close> looks at the two decimals of \<open>k\<close>
  digits around \<open>x\<close>, where \<open>10 ^ (n0 - 1) \<le> x < 10 ^ n0\<close>; \<open>shortest_decimal\<close> tries
  \<open>k = 1, 2, ...\<close> (17 digits always suffice for a binary64 value).
\<close>

definition decimal_candidate :: "real \<Rightarrow> int \<Rightarrow> nat \<Rightarrow> (int \<times> int) option" where
  "decimal_candidate x n0 k =
     (let scale = power_of 10 (n0 - int k);
          lo = \<lfloor>x / scale\<rfloor>;
          hi = lo + 1;
          ok_lo = (fl (of_int lo * scale) = x);
          ok_hi = (fl (of_int hi * scale) = x);
          d_lo = x - of_int lo * scale;
          d_hi = of_int hi * scale - x
      in if ok_hi \<and> (\<not> ok_lo \<or> d_hi < d_lo \<or> (d_hi = d_lo \<and> even hi))
           then (if hi = 10 ^ k then Some (10 ^ (k - 1), n0 + 1) else Some (hi, n0))
         else if ok_lo then Some (lo, n0)
         else None)"

function shortest_decimal :: "real \<Rightarrow> int \<Rightarrow> nat \<Rightarrow> int \<times> int" where
  "shortest_decimal x n0 k =
     (case decimal_candidate x n0 k of
        Some r \<Rightarrow> r
      | None \<Rightarrow>
          if 17 \<le> k then (\<lfloor>x / power_of 10 (n0 - int k)\<rfloor>, n0)
          else shortest_decimal x n0 (k + 1))"
  by pat_completeness auto
termination
  by (relation "measure (\<lambda>(x, n0, k). 17 - k)") auto

declare shortest_decimal.simps [simp del]

text \<open>
  The layout of the digits: plain digits with trailing zeros, digits with a decimal
  point, \<^verbatim>\<open>0.\<close> with leading zeros, or exponent notation.
\<close>

definition positive_toString :: "real \<Rightarrow> string" where
  "positive_toString x =
     (let (s, n) = shortest_decimal x (ilog 10 x + 1) 1;
          ds = digits s;
          k = int (length ds);
          e = (if 0 \<le> n - 1 then ''+'' else ''-'') @ digits \<bar>n - 1\<bar>
      in if k \<le> n \<and> n \<le> 21 then ds @ replicate (nat (n - k)) (CHR ''0'')
         else if 0 < n \<and> n \<le> 21 then take (nat n) ds @ ''.'' @ drop (nat n) ds
         else if - 6 < n \<and> n \<le> 0 then ''0.'' @ replicate (nat (- n)) (CHR ''0'') @ ds
         else if k = 1 then ds @ ''e'' @ e
         else take 1 ds @ ''.'' @ drop 1 ds @ ''e'' @ e)"

definition Number_toString :: "real \<Rightarrow> string" where
  "Number_toString x =
     (if x = 0 then ''0''
      else if x < 0 then ''-'' @ positive_toString (- x)
      else positive_toString x)"

section \<open>Candidate store and filter engine\<close>

record Place =
  p_id :: string
  p_name :: string
  p_type :: Temp
  p_style :: Style
  p_form :: Form
  p_speed :: Speed
  p_price :: Price

text \<open>
  \<^verbatim>\<open>filterPlaces\<close> returns each place spread into a new object with one more field,
  \<^verbatim>\<open>distance\<close>, a text: a record extension.
\<close>

record NearbyPlace = Place +
  distance :: string

subsection \<open>Names of the eight static places\<close>

definition name_p1 :: string where \<comment> \<open>warm soup noodle house: U+6696 U+6E6F U+9EB5 U+9928\<close>
  "name_p1 =
    [CHR 0xE6, CHR 0x9A, CHR 0x96, CHR 0xE6, CHR 0xB9, CHR 0xAF, CHR 0xE9, CHR 0xBA, CHR 0xB5,
     CHR 0xE9, CHR 0xA4, CHR 0xA8]"

definition name_p2 :: string where \<comment> \<open>seared rice bowl: U+7099 U+71D2 U+4E3C U+98EF\<close>
  "name_p2 =
    [CHR 0xE7, CHR 0x82, CHR 0x99, CHR 0xE7, CHR 0x87, CHR 0x92, CHR 0xE4, CHR 0xB8, CHR 0xBC,
     CHR 0xE9, CHR 0xA3, CHR 0xAF]"

definition name_p3 :: string where \<comment> \<open>fresh salad bowl: U+6E05 U+723D U+6C99 U+62C9 U+7897\<close>
  "name_p3 =
    [CHR 0xE6, CHR 0xB8, CHR 0x85, CHR 0xE7, CHR 0x88, CHR 0xBD, CHR 0xE6, CHR 0xB2, CHR 0x99,
     CHR 0xE6, CHR 0x8B, CHR 0x89, CHR 0xE7, CHR 0xA2, CHR 0x97]"

definition name_p4 :: string where \<comment> \<open>spicy hotpot stall: U+9EBB U+8FA3 U+934B U+5C0F U+6524\<close>
  "name_p4 =
    [CHR 0xE9, CHR 0xBA, CHR 0xBB, CHR 0xE8, CHR 0xBE, CHR 0xA3, CHR 0xE9, CHR 0x8D, CHR 0x8B,
     CHR 0xE5, CHR 0xB0, CHR 0x8F, CHR 0xE6, CHR 0x94, CHR 0xA4]"

definition name_p5 :: string where \<comment> \<open>curry rice specialist: U+5496 U+54E9 U+98EF U+5C08 U+9580\<close>
  "name_p5 =
    [CHR 0xE5, CHR 0x92, CHR 0x96, CHR 0xE5, CHR 0x93, CHR 0xA9, CHR 0xE9, CHR 0xA3, CHR 0xAF,
     CHR 0xE5, CHR 0xB0, CHR 0x88, CHR 0xE9, CHR 0x96, CHR 0x80]"

definition name_p6 :: string where \<comment> \<open>quick lunch box: U+4FBF U+7576 U+5FEB U+53D6\<close>
  "name_p6 =
    [CHR 0xE4, CHR 0xBE, CHR 0xBF, CHR 0xE7, CHR 0x95, CHR 0xB6, CHR 0xE5, CHR 0xBF, CHR 0xAB,
     CHR 0xE5, CHR 0x8F, CHR 0x96]"

definition name_p7 :: string where \<comment> \<open>Japanese udon: U+65E5 U+5F0F U+70CF U+9F8D\<close>
  "name_p7 =
    [CHR 0xE6, CHR 0x97, CHR 0xA5, CHR 0xE5, CHR 0xBC, CHR 0x8F, CHR 0xE7, CHR 0x83, CHR 0x8F,
     CHR 0xE9, CHR 0xBE, CHR 0x8D]"

definition name_p8 :: string where \<comment> \<open>chilled noodles: U+51B0 U+6DBC U+9EB5 U+98DF\<close>
  "name_p8 =
    [CHR 0xE5, CHR 0x86, CHR 0xB0, CHR 0xE6, CHR 0xB6, CHR 0xBC, CHR 0xE9, CHR 0xBA, CHR 0xB5,
     CHR 0xE9, CHR 0xA3, CHR 0x9F]"

definition mockPlaces :: "Place list" where
  "mockPlaces =
    [\<lparr>p_id = ''p1'', p_name = name_p1, p_type = Hot, p_style = Light, p_form = Soup,
      p_speed = Sit, p_price = Budget\<rparr>,
     \<lparr>p_id = ''p2'', p_name = name_p2, p_type = Hot, p_style = Rich, p_form = Dry,
      p_speed = Fast, p_price = Mid\<rparr>,
     \<lparr>p_id = ''p3'', p_name = name_p3, p_type = Cold, p_style = Light, p_form = Dry,
      p_speed = Fast, p_price = Mid\<rparr>,
     \<lparr>p_id = ''p4'', p_name = name_p4, p_type = Hot, p_style = Rich, p_form = Soup,
      p_speed = Sit, p_price = Mid\<rparr>,
     \<lparr>p_id = ''p5'', p_name = name_p5, p_type = Hot, p_style = Rich, p_form = Dry,
      p_speed = Sit, p_price = Mid\<rparr>,
     \<lparr>p_id = ''p6'', p_name = name_p6, p_type = Hot, p_style = Light, p_form = Dry,
      p_speed = Fast, p_price = Budget\<rparr>,
     \<lparr>p_id = ''p7'', p_name = name_p7, p_type = Hot, p_style = Light, p_form = Soup,
      p_speed = Fast, p_price = Mid\<rparr>,
     \<lparr>p_id = ''p8'', p_name = name_p8, p_type = Cold, p_style = Light, p_form = Dry,
      p_speed = Fast, p_price = Budget\<rparr>]"

text \<open>The object spread \<^verbatim>\<open>{ ...p, distance: d }\<close>.\<close>

definition with_distance :: "Place \<Rightarrow> string \<Rightarrow> NearbyPlace" where
  "with_distance p d = Place.extend p (NearbyPlace.fields d)"

text \<open>
  The two local constants of \<^verbatim>\<open>filterPlaces\<close>. A predicate of the form
  \<^verbatim>\<open>temp ? p.type === temp : true\<close> passes every place when the field is \<^verbatim>\<open>null\<close>.
\<close>

definition candidates :: "Temp option \<Rightarrow> Form option \<Rightarrow> Speed option \<Rightarrow> Style \<Rightarrow> Place list" where
  "candidates temp form speed sty =
     filter (\<lambda>p. p_style p = sty)
       (filter (\<lambda>p. case speed of Some x \<Rightarrow> p_speed p = x | None \<Rightarrow> True)
         (filter (\<lambda>p. case form of Some x \<Rightarrow> p_form p = x | None \<Rightarrow> True)
           (filter (\<lambda>p. case temp of Some x \<Rightarrow> p_type p = x | None \<Rightarrow> True) mockPlaces)))"

definition fallback :: "Temp option \<Rightarrow> Place list" where
  "fallback temp =
     filter (\<lambda>p. case temp of Some x \<Rightarrow> p_type p = x | None \<Rightarrow> True) mockPlaces"

text \<open>
  The template \<^verbatim>\<open>`${(idx + 1) * 0.4} km`\<close>: the index is a number, the sum and the
  product are rounded as every JavaScript operation is, \<^verbatim>\<open>0.4\<close> is the binary64 value
  nearest to four tenths, and the product is turned into text before \<^verbatim>\<open> km\<close> is
  appended.
\<close>

definition distance_text :: "nat \<Rightarrow> string" where
  "distance_text idx = Number_toString (fl (fl (real idx + 1) * fl (4 / 10))) @ '' km''"

text \<open>
  \<^verbatim>\<open>slice(0, 8)\<close> is \<open>take 8\<close>; \<^verbatim>\<open>map((p, idx) => ...)\<close> is a map over the list
  paired with its indices from 0.
\<close>

definition filterPlaces :: "Temp option \<Rightarrow> Form option \<Rightarrow> Speed option \<Rightarrow> Style \<Rightarrow> NearbyPlace list" where
  "filterPlaces temp form speed sty =
     map (\<lambda>(idx, p). with_distance p (distance_text idx))
       (enumerate 0
         (take 8 (if length (candidates temp form speed sty) \<noteq> 0
                  then candidates temp form speed sty
                  else fallback temp)))"

section \<open>Query builder\<close>

subsection \<open>Search keywords\<close>

definition kw_mala_hotpot :: string where \<comment> \<open>spicy hotpot: U+9EBB U+8FA3 U+934B\<close>
  "kw_mala_hotpot =
    [CHR 0xE9, CHR 0xBA, CHR 0xBB, CHR 0xE8, CHR 0xBE, CHR 0xA3, CHR 0xE9, CHR 0x8D, CHR 0x8B]"

definition kw_beef_noodles :: string where \<comment> \<open>beef noodles: U+725B U+8089 U+9EB5\<close>
  "kw_beef_noodles =
    [CHR 0xE7, CHR 0x89, CHR 0x9B, CHR 0xE8, CHR 0x82, CHR 0x89, CHR 0xE9, CHR 0xBA, CHR 0xB5]"

definition kw_ramen :: string where \<comment> \<open>ramen: U+62C9 U+9EB5\<close>
  "kw_ramen =
    [CHR 0xE6, CHR 0x8B, CHR 0x89, CHR 0xE9, CHR 0xBA, CHR 0xB5]"

definition kw_hot_sour_soup :: string where \<comment> \<open>hot and sour soup: U+9178 U+8FA3 U+6E6F\<close>
  "kw_hot_sour_soup =
    [CHR 0xE9, CHR 0x85, CHR 0xB8, CHR 0xE8, CHR 0xBE, CHR 0xA3, CHR 0xE6, CHR 0xB9, CHR 0xAF]"

definition kw_clear_noodle_soup :: string where \<comment> \<open>clear noodle soup: U+6E05 U+6E6F U+9EB5\<close>
  "kw_clear_noodle_soup =
    [CHR 0xE6, CHR 0xB8, CHR 0x85, CHR 0xE6, CHR 0xB9, CHR 0xAF, CHR 0xE9, CHR 0xBA, CHR 0xB5]"

definition kw_congee :: string where \<comment> \<open>congee: U+7CA5\<close>
  "kw_congee =
    [CHR 0xE7, CHR 0xB2, CHR 0xA5]"

definition kw_miso_soup :: string where \<comment> \<open>miso soup: U+5473 U+564C U+6E6F\<close>
  "kw_miso_soup =
    [CHR 0xE5, CHR 0x91, CHR 0xB3, CHR 0xE5, CHR 0x99, CHR 0x8C, CHR 0xE6, CHR 0xB9, CHR 0xAF]"

definition kw_udon :: string where \<comment> \<open>udon: U+70CF U+9F8D U+9EB5\<close>
  "kw_udon =
    [CHR 0xE7, CHR 0x83, CHR 0x8F, CHR 0xE9, CHR 0xBE, CHR 0x8D, CHR 0xE9, CHR 0xBA, CHR 0xB5]"

definition kw_pork_rice :: string where \<comment> \<open>roast pork rice: U+71D2 U+8089 U+98EF\<close>
  "kw_pork_rice =
    [CHR 0xE7, CHR 0x87, CHR 0x92, CHR 0xE8, CHR 0x82, CHR 0x89, CHR 0xE9, CHR 0xA3, CHR 0xAF]"

definition kw_curry_rice :: string where \<comment> \<open>curry rice: U+5496 U+54E9 U+98EF\<close>
  "kw_curry_rice =
    [CHR 0xE5, CHR 0x92, CHR 0x96, CHR 0xE5, CHR 0x93, CHR 0xA9, CHR 0xE9, CHR 0xA3, CHR 0xAF]"

definition kw_donburi :: string where \<comment> \<open>rice bowl: U+4E3C U+98EF\<close>
  "kw_donburi =
    [CHR 0xE4, CHR 0xB8, CHR 0xBC, CHR 0xE9, CHR 0xA3, CHR 0xAF]"

definition kw_fried_chicken :: string where \<comment> \<open>fried chicken: U+70B8 U+96DE\<close>
  "kw_fried_chicken =
    [CHR 0xE7, CHR 0x82, CHR 0xB8, CHR 0xE9, CHR 0x9B, CHR 0x9E]"

definition kw_salad :: string where \<comment> \<open>salad: U+6C99 U+62C9\<close>
  "kw_salad =
    [CHR 0xE6, CHR 0xB2, CHR 0x99, CHR 0xE6, CHR 0x8B, CHR 0x89]"

definition kw_healthy_box :: string where \<comment> \<open>healthy meal box: U+5065 U+5EB7 U+9910 U+76D2\<close>
  "kw_healthy_box =
    [CHR 0xE5, CHR 0x81, CHR 0xA5, CHR 0xE5, CHR 0xBA, CHR 0xB7, CHR 0xE9, CHR 0xA4, CHR 0x90,
     CHR 0xE7, CHR 0x9B, CHR 0x92]"

definition kw_pho :: string where \<comment> \<open>pho: U+8D8A U+5357 U+6CB3 U+7C89\<close>
  "kw_pho =
    [CHR 0xE8, CHR 0xB6, CHR 0x8A, CHR 0xE5, CHR 0x8D, CHR 0x97, CHR 0xE6, CHR 0xB2, CHR 0xB3,
     CHR 0xE7, CHR 0xB2, CHR 0x89]"

definition kw_cold_noodles :: string where \<comment> \<open>cold noodles: U+6DBC U+9EB5\<close>
  "kw_cold_noodles =
    [CHR 0xE6, CHR 0xB6, CHR 0xBC, CHR 0xE9, CHR 0xBA, CHR 0xB5]"

definition kw_sashimi :: string where \<comment> \<open>sashimi: U+751F U+9B5A U+7247\<close>
  "kw_sashimi =
    [CHR 0xE7, CHR 0x94, CHR 0x9F, CHR 0xE9, CHR 0xAD, CHR 0x9A, CHR 0xE7, CHR 0x89, CHR 0x87]"

definition kw_restaurant :: string where \<comment> \<open>restaurant: U+9910 U+5EF3\<close>
  "kw_restaurant =
    [CHR 0xE9, CHR 0xA4, CHR 0x90, CHR 0xE5, CHR 0xBB, CHR 0xB3]"

definition kw_snack :: string where \<comment> \<open>snacks: U+5C0F U+5403\<close>
  "kw_snack =
    [CHR 0xE5, CHR 0xB0, CHR 0x8F, CHR 0xE5, CHR 0x90, CHR 0x83]"

definition kw_bento :: string where \<comment> \<open>lunch box: U+4FBF U+7576\<close>
  "kw_bento =
    [CHR 0xE4, CHR 0xBE, CHR 0xBF, CHR 0xE7, CHR 0x95, CHR 0xB6]"

definition kw_noodles :: string where \<comment> \<open>noodles: U+9EB5\<close>
  "kw_noodles =
    [CHR 0xE9, CHR 0xBA, CHR 0xB5]"

text \<open>
  The pool of \<^verbatim>\<open>buildMapsQuery\<close>, as it stands after the five conditional pushes and the
  generic fallback. \<^verbatim>\<open>tags.includes(x)\<close> is membership.
\<close>

definition pool_of :: "string list \<Rightarrow> string list" where
  "pool_of tgs =
     (let hasHot = (lbl_hot \<in> set tgs);
          hasCold = (lbl_cold \<in> set tgs);
          hasSoup = (lbl_soup \<in> set tgs);
          hasDry = (lbl_dry \<in> set tgs);
          hasRich = (lbl_rich \<in> set tgs);
          hasLight = (lbl_light \<in> set tgs);
          pool0 = [];
          pool1 = (if hasRich \<and> hasSoup \<and> hasHot
                   then pool0 @ [kw_mala_hotpot, kw_beef_noodles, kw_ramen, kw_hot_sour_soup]
                   else pool0);
          pool2 = (if hasLight \<and> hasSoup \<and> hasHot
                   then pool1 @ [kw_clear_noodle_soup, kw_congee, kw_miso_soup, kw_udon]
                   else pool1);
          pool3 = (if hasRich \<and> hasDry \<and> hasHot
                   then pool2 @ [kw_pork_rice, kw_curry_rice, kw_donburi, kw_fried_chicken]
                   else pool2);
          pool4 = (if hasLight \<and> hasDry
                   then pool3 @ [kw_salad, kw_healthy_box, kw_pho, kw_cold_noodles]
                   else pool3);
          pool5 = (if hasCold
                   then pool4 @ [kw_salad, kw_cold_noodles, kw_sashimi]
                   else pool4)
      in if length pool5 = 0
         then pool5 @ [kw_restaurant, kw_snack, kw_bento, kw_noodles]
         else pool5)"

text \<open>
  \<^verbatim>\<open>pick\<close> reads \<^verbatim>\<open>arr[Math.floor(r * arr.length)]\<close>, where \<open>r\<close> is what
  \<^verbatim>\<open>Math.random()\<close> returned. Reading a JavaScript array outside its range gives
  \<^verbatim>\<open>undefined\<close>, which is \<open>None\<close> here.
\<close>

definition pick :: "real \<Rightarrow> string list \<Rightarrow> string option" where
  "pick r arr =
     (let i = \<lfloor>r * real (length arr)\<rfloor>
      in if 0 \<le> i \<and> i < int (length arr) then Some (arr ! nat i) else None)"

text \<open>\<^verbatim>\<open>.filter(Boolean)\<close> drops \<^verbatim>\<open>undefined\<close> and the empty string.\<close>

fun filter_Boolean :: "string option list \<Rightarrow> string list" where
  "filter_Boolean [] = []"
| "filter_Boolean (None # xs) = filter_Boolean xs"
| "filter_Boolean (Some s # xs) = (if s = [] then filter_Boolean xs else s # filter_Boolean xs)"

text \<open>
  \<^verbatim>\<open>Array.from(new Set(xs))\<close>: a JavaScript set keeps its elements in the order of
  their first insertion. The first argument is the set built so far.
\<close>

fun Set_from :: "string list \<Rightarrow> string list \<Rightarrow> string list" where
  "Set_from acc [] = acc"
| "Set_from acc (x # xs) = Set_from (if x \<in> set acc then acc else acc @ [x]) xs"

fun join :: "string \<Rightarrow> string list \<Rightarrow> string" where
  "join sep [] = []"
| "join sep [x] = x"
| "join sep (x # y # ys) = x @ sep @ join sep (y # ys)"

text \<open>
  \<^verbatim>\<open>buildMapsQuery\<close> calls \<^verbatim>\<open>Math.random()\<close> up to three times: \<open>r1\<close> picks the first
  keyword, \<open>r2\<close> decides whether there is a second pick, \<open>r3\<close> is drawn only then and
  picks the second keyword. The three outcomes are arguments of the model.
\<close>

definition buildMapsQuery :: "real \<Rightarrow> real \<Rightarrow> real \<Rightarrow> string list \<Rightarrow> string" where
  "buildMapsQuery r1 r2 r3 tgs =
     (let pool = pool_of tgs;
          a = pick r1 pool;
          b = (if r2 > 0.55 then pick r3 pool else Some []);
          uniq = Set_from [] (filter_Boolean [a, b])
      in join '' '' uniq)"

section \<open>History log entries\<close>

datatype Mode = Satisfied | Stable | Chaos

record Sig =
  sig_warmth :: real
  sig_mode :: Mode
  sig_temp :: "Temp option"
  sig_form :: "Form option"
  sig_speed :: "Speed option"
  sig_richness :: real

record LogEntry =
  e_id :: string
  e_at :: string
  e_tags :: "string list"
  e_choiceText :: string
  e_sig :: "Sig option"

definition clamp :: "real \<Rightarrow> real \<Rightarrow> real \<Rightarrow> real" where
  "clamp n a b = min b (max a n)"

text \<open>
  The two readings of the system clock that \<^verbatim>\<open>saveEnergy\<close> takes: \<^verbatim>\<open>Date.now()\<close>, an
  integer number of milliseconds, and \<^verbatim>\<open>nowISO()\<close>, whose text comes from the platform.
\<close>

record Clock =
  now_ms :: int
  now_iso :: string

text \<open>The decimal text of an integer, as the template \<^verbatim>\<open>`e_${Date.now()}`\<close> renders it.\<close>

definition string_of_int :: "int \<Rightarrow> string" where
  "string_of_int i = (if i < 0 then ''-'' @ digits (- i) else digits i)"

section \<open>The persisted log slot\<close>

text \<open>
  \<^verbatim>\<open>localStorage\<close> holds at most one text under the key \<^verbatim>\<open>LS_KEY\<close>. Both of its
  operations can throw (storage disabled, quota exceeded); the flags say whether they
  do. An exception is an \<open>Inl\<close> result.
\<close>

datatype Exn = StorageError | SyntaxError

record Storage =
  slot :: "string option"
  readable :: bool
  writable :: bool

definition getItem :: "Storage \<Rightarrow> Exn + string option" where
  "getItem st = (if readable st then Inr (slot st) else Inl StorageError)"

definition setItem :: "Storage \<Rightarrow> string \<Rightarrow> Exn + Storage" where
  "setItem st v = (if writable st then Inr (st\<lparr>slot := Some v\<rparr>) else Inl StorageError)"

text \<open>
  The initialiser of the \<^verbatim>\<open>useState\<close> cell in \<^verbatim>\<open>useLocalStorageLog\<close>: first the body of
  its \<^verbatim>\<open>try\<close>, then the whole \<^verbatim>\<open>try\<close>/\<^verbatim>\<open>catch\<close>. \<^verbatim>\<open>JSON.parse\<close> is the platform's; it
  is the argument \<open>parse\<close>, which throws on a text that is not JSON. The source casts
  the parsed value to \<^verbatim>\<open>LogEntry[]\<close> without a check, so \<open>parse\<close> returns a list of
  entries; a text that parses to a value of another shape is outside the model.
  \<^verbatim>\<open>raw ? ... : []\<close> takes the second branch for \<^verbatim>\<open>null\<close> and for the empty text.
\<close>

definition read_log_try :: "(string \<Rightarrow> Exn + LogEntry list) \<Rightarrow> Storage \<Rightarrow> Exn + LogEntry list" where
  "read_log_try parse st =
     (case getItem st of
        Inl e \<Rightarrow> Inl e
      | Inr raw \<Rightarrow>
          (case raw of
             None \<Rightarrow> Inr []
           | Some r \<Rightarrow> if r = [] then Inr [] else parse r))"

definition read_log :: "(string \<Rightarrow> Exn + LogEntry list) \<Rightarrow> Storage \<Rightarrow> Exn + LogEntry list" where
  "read_log parse st =
     (case read_log_try parse st of
        Inl e \<Rightarrow> Inr []
      | Inr lg \<Rightarrow> Inr lg)"

text \<open>
  The effect of \<^verbatim>\<open>useLocalStorageLog\<close>, run after a render in which the log changed:
  \<^verbatim>\<open>setItem\<close> inside a \<^verbatim>\<open>try\<close> whose \<^verbatim>\<open>catch\<close> is empty. \<^verbatim>\<open>JSON.stringify\<close> is the
  argument \<open>stringify\<close>.
\<close>

definition write_log :: "(LogEntry list \<Rightarrow> string) \<Rightarrow> LogEntry list \<Rightarrow> Storage \<Rightarrow> Exn + Storage" where
  "write_log stringify lg st =
     (case setItem st (stringify lg) of
        Inl e \<Rightarrow> Inr st
      | Inr st' \<Rightarrow> Inr st')"

section \<open>The component state and its handlers\<close>

text \<open>
  What \<^verbatim>\<open>window.open\<close> is asked to open. The source builds the text
  \<^verbatim>\<open>https://www.google.com/maps/search/Q\<close>, or with \<^verbatim>\<open>/@lat,lng,15z\<close> appended, where
  \<^verbatim>\<open>Q\<close> is \<^verbatim>\<open>encodeURIComponent(query)\<close>; the model keeps the parts.
\<close>

datatype Url = MapsSearch string | MapsSearchNear real real string

definition buildMapsSearchUrl :: "real \<Rightarrow> real \<Rightarrow> string \<Rightarrow> Url" where
  "buildMapsSearchUrl lat lng query = MapsSearchNear lat lng query"

text \<open>
  The three ways \<^verbatim>\<open>openMapsNearby\<close> can go: \<^verbatim>\<open>navigator.geolocation\<close> is missing, the
  success callback runs with a position, or the error callback runs with a code
  (1 is a refused permission).
\<close>

datatype GeoOutcome = GeoUnsupported | GeoSuccess real real | GeoError int

subsection \<open>Status texts and the placeholder choice\<close>

definition txt_go_nearby :: string where \<comment> \<open>(going out to eat nearby), in full-width parentheses: U+FF08 U+524D U+5F80 U+9644 U+8FD1 U+8993 U+98DF U+FF09\<close>
  "txt_go_nearby =
    [CHR 0xEF, CHR 0xBC, CHR 0x88, CHR 0xE5, CHR 0x89, CHR 0x8D, CHR 0xE5, CHR 0xBE, CHR 0x80,
     CHR 0xE9, CHR 0x99, CHR 0x84, CHR 0xE8, CHR 0xBF, CHR 0x91, CHR 0xE8, CHR 0xA6, CHR 0x93,
     CHR 0xE9, CHR 0xA3, CHR 0x9F, CHR 0xEF, CHR 0xBC, CHR 0x89]"

definition msg_locating :: string where \<comment> \<open>acquiring location...: U+6B63 U+5728 U+53D6 U+5F97 U+5B9A U+4F4D U+2026\<close>
  "msg_locating =
    [CHR 0xE6, CHR 0xAD, CHR 0xA3, CHR 0xE5, CHR 0x9C, CHR 0xA8, CHR 0xE5, CHR 0x8F, CHR 0x96,
     CHR 0xE5, CHR 0xBE, CHR 0x97, CHR 0xE5, CHR 0xAE, CHR 0x9A, CHR 0xE4, CHR 0xBD, CHR 0x8D,
     CHR 0xE2, CHR 0x80, CHR 0xA6]"

definition msg_unsupported :: string where \<comment> \<open>this device does not support location; you can still search the map by hand: U+9019 U+500B U+88DD U+7F6E U+4E0D U+652F U+63F4 U+5B9A U+4F4D U+3002 U+4F60 U+4ECD U+53EF U+624B U+52D5 U+5728 U+5730 U+5716 U+641C U+5C0B U+3002\<close>
  "msg_unsupported =
    [CHR 0xE9, CHR 0x80, CHR 0x99, CHR 0xE5, CHR 0x80, CHR 0x8B, CHR 0xE8, CHR 0xA3, CHR 0x9D,
     CHR 0xE7, CHR 0xBD, CHR 0xAE, CHR 0xE4, CHR 0xB8, CHR 0x8D, CHR 0xE6, CHR 0x94, CHR 0xAF,
     CHR 0xE6, CHR 0x8F, CHR 0xB4, CHR 0xE5, CHR 0xAE, CHR 0x9A, CHR 0xE4, CHR 0xBD, CHR 0x8D,
     CHR 0xE3, CHR 0x80, CHR 0x82, CHR 0xE4, CHR 0xBD, CHR 0xA0, CHR 0xE4, CHR 0xBB, CHR 0x8D,
     CHR 0xE5, CHR 0x8F, CHR 0xAF, CHR 0xE6, CHR 0x89, CHR 0x8B, CHR 0xE5, CHR 0x8B, CHR 0x95,
     CHR 0xE5, CHR 0x9C, CHR 0xA8, CHR 0xE5, CHR 0x9C, CHR 0xB0, CHR 0xE5, CHR 0x9C, CHR 0x96,
     CHR 0xE6, CHR 0x90, CHR 0x9C, CHR 0xE5, CHR 0xB0, CHR 0x8B, CHR 0xE3, CHR 0x80, CHR 0x82]"

definition msg_ready :: string where \<comment> \<open>ready: (followed by the query): U+5DF2 U+6E96 U+5099 U+597D U+FF1A\<close>
  "msg_ready =
    [CHR 0xE5, CHR 0xB7, CHR 0xB2, CHR 0xE6, CHR 0xBA, CHR 0x96, CHR 0xE5, CHR 0x82, CHR 0x99,
     CHR 0xE5, CHR 0xA5, CHR 0xBD, CHR 0xEF, CHR 0xBC, CHR 0x9A]"

definition msg_denied :: string where \<comment> \<open>you refused the location permission: U+4F60 U+62D2 U+7D55 U+4E86 U+5B9A U+4F4D U+6B0A U+9650 U+3002\<close>
  "msg_denied =
    [CHR 0xE4, CHR 0xBD, CHR 0xA0, CHR 0xE6, CHR 0x8B, CHR 0x92, CHR 0xE7, CHR 0xB5, CHR 0x95,
     CHR 0xE4, CHR 0xBA, CHR 0x86, CHR 0xE5, CHR 0xAE, CHR 0x9A, CHR 0xE4, CHR 0xBD, CHR 0x8D,
     CHR 0xE6, CHR 0xAC, CHR 0x8A, CHR 0xE9, CHR 0x99, CHR 0x90, CHR 0xE3, CHR 0x80, CHR 0x82]"

definition msg_failed :: string where \<comment> \<open>location failed: U+5B9A U+4F4D U+5931 U+6557 U+3002\<close>
  "msg_failed =
    [CHR 0xE5, CHR 0xAE, CHR 0x9A, CHR 0xE4, CHR 0xBD, CHR 0x8D, CHR 0xE5, CHR 0xA4, CHR 0xB1,
     CHR 0xE6, CHR 0x95, CHR 0x97, CHR 0xE3, CHR 0x80, CHR 0x82]"

definition msg_manual :: string where \<comment> \<open>(space) you can still search the map by hand: U+0020 U+4F60 U+4ECD U+53EF U+624B U+52D5 U+5728 U+5730 U+5716 U+641C U+5C0B U+3002\<close>
  "msg_manual =
    [CHR 0x20, CHR 0xE4, CHR 0xBD, CHR 0xA0, CHR 0xE4, CHR 0xBB, CHR 0x8D, CHR 0xE5, CHR 0x8F,
     CHR 0xAF, CHR 0xE6, CHR 0x89, CHR 0x8B, CHR 0xE5, CHR 0x8B, CHR 0x95, CHR 0xE5, CHR 0x9C,
     CHR 0xA8, CHR 0xE5, CHR 0x9C, CHR 0xB0, CHR 0xE5, CHR 0x9C, CHR 0x96, CHR 0xE6, CHR 0x90,
     CHR 0x9C, CHR 0xE5, CHR 0xB0, CHR 0x8B, CHR 0xE3, CHR 0x80, CHR 0x82]"

text \<open>
  The \<^verbatim>\<open>useState\<close> cells of \<^verbatim>\<open>App\<close>, the timer reference (\<open>True\<close> while a timeout is
  pending), and the list of what was opened so far. The cell \<^verbatim>\<open>log\<close> is \<open>log_entries\<close>.
\<close>

record AppState =
  log_entries :: "LogEntry list"
  screen :: Screen
  chooseStep :: int
  temp :: "Temp option"
  form :: "Form option"
  richness :: real
  speed :: "Speed option"
  pressing :: bool
  pressTimer :: bool
  geoStatus :: string
  opened :: "Url list"

definition totalChooseSteps :: int where
  "totalChooseSteps = 3"

definition initial_state :: "LogEntry list \<Rightarrow> AppState" where
  "initial_state lg =
     \<lparr>log_entries = lg, screen = Home, chooseStep = 0, temp = None, form = None,
      richness = 0.5, speed = None, pressing = False, pressTimer = False,
      geoStatus = [], opened = []\<rparr>"

text \<open>The memoised values \<^verbatim>\<open>derived\<close>, \<^verbatim>\<open>tags\<close>, \<^verbatim>\<open>style\<close> and \<^verbatim>\<open>filteredPlaces\<close>.\<close>

definition derived_of :: "AppState \<Rightarrow> derived" where
  "derived_of s = computeTags (temp s) (form s) (richness s) (speed s)"

definition tags_of :: "AppState \<Rightarrow> string list" where
  "tags_of s = tags (derived_of s)"

definition style_of :: "AppState \<Rightarrow> Style" where
  "style_of s = style (derived_of s)"

definition filteredPlaces :: "AppState \<Rightarrow> NearbyPlace list" where
  "filteredPlaces s = filterPlaces (temp s) (form s) (speed s) (style_of s)"

definition resetFlow :: "AppState \<Rightarrow> AppState" where
  "resetFlow s =
     s\<lparr>chooseStep := 0, temp := None, form := None, richness := 0.5, speed := None,
       pressing := False, pressTimer := False\<rparr>"

definition goHome :: "AppState \<Rightarrow> AppState" where
  "goHome s = (resetFlow s)\<lparr>screen := Home\<rparr>"

definition goBack :: "AppState \<Rightarrow> AppState" where
  "goBack s =
     (if screen s = Choose then
        (if chooseStep s = 0 then goHome s else s\<lparr>chooseStep := chooseStep s - 1\<rparr>)
      else if screen s = Recommend then s\<lparr>screen := State\<rparr>
      else if screen s = Energy then s\<lparr>screen := Recommend\<rparr>
      else if screen s = Log then goHome s
      else goHome s)"

definition startDecision :: "AppState \<Rightarrow> AppState" where
  "startDecision s = (resetFlow s)\<lparr>screen := Choose\<rparr>"

definition nextChoose :: "AppState \<Rightarrow> AppState" where
  "nextChoose s =
     (if chooseStep s < totalChooseSteps - 1 then s\<lparr>chooseStep := chooseStep s + 1\<rparr>
      else s\<lparr>screen := State\<rparr>)"

text \<open>The four arguments are the four outcomes of \<^verbatim>\<open>Math.random()\<close>, in call order.\<close>

definition randomizeAll :: "real \<Rightarrow> real \<Rightarrow> real \<Rightarrow> real \<Rightarrow> AppState \<Rightarrow> AppState" where
  "randomizeAll r1 r2 r3 r4 s =
     s\<lparr>temp := Some (if r1 > 0.5 then Hot else Cold),
       form := Some (if r2 > 0.5 then Soup else Dry),
       speed := Some (if r3 > 0.5 then Fast else Sit),
       richness := r4\<rparr>"

definition handlePressDown :: "AppState \<Rightarrow> AppState" where
  "handlePressDown s = s\<lparr>pressing := True, pressTimer := True\<rparr>"

definition handlePressUp :: "AppState \<Rightarrow> AppState" where
  "handlePressUp s = s\<lparr>pressing := False, pressTimer := False\<rparr>"

text \<open>The callback that \<^verbatim>\<open>handlePressDown\<close> schedules; it runs only while the timer is pending.\<close>

definition pressTimeout :: "real \<Rightarrow> real \<Rightarrow> real \<Rightarrow> real \<Rightarrow> AppState \<Rightarrow> AppState" where
  "pressTimeout r1 r2 r3 r4 s =
     (if pressTimer s
      then (randomizeAll r1 r2 r3 r4 s)\<lparr>pressing := False, pressTimer := False, screen := State\<rparr>
      else s)"

text \<open>
  \<^verbatim>\<open>saveEnergy\<close> builds the entry from the values of the render in which the handler
  was created (\<open>snap\<close>: tags, richness, temperature, form, pace) and prepends it with a
  functional update, \<^verbatim>\<open>setLog((prev) => [entry, ...prev])\<close>, to the log of the state
  \<open>s\<close> in which the update runs. For a click handler the two states are the same; for
  the geolocation callback \<open>snap\<close> is the state at the time of the click.
\<close>

definition new_entry :: "AppState \<Rightarrow> Clock \<Rightarrow> string \<Rightarrow> LogEntry" where
  "new_entry snap clk choiceText =
     \<lparr>e_id = ''e_'' @ string_of_int (now_ms clk),
      e_at = now_iso clk,
      e_tags = tags_of snap,
      e_choiceText = (if choiceText \<noteq> [] then choiceText else []),
      e_sig = Some \<lparr>sig_warmth = clamp (0.35 + richness snap * 0.65) 0 1,
                    sig_mode = Satisfied,
                    sig_temp = temp snap,
                    sig_form = form snap,
                    sig_speed = speed snap,
                    sig_richness = richness snap\<rparr>\<rparr>"

definition saveEnergy :: "AppState \<Rightarrow> Clock \<Rightarrow> string \<Rightarrow> AppState \<Rightarrow> AppState" where
  "saveEnergy snap clk choiceText s =
     s\<lparr>log_entries := new_entry snap clk choiceText # log_entries s\<rparr>"

text \<open>\<^verbatim>\<open>setLog([])\<close>, the handler of the clear button on the log screen.\<close>

definition clearLog :: "AppState \<Rightarrow> AppState" where
  "clearLog s = s\<lparr>log_entries := []\<rparr>"

definition window_open :: "Url \<Rightarrow> AppState \<Rightarrow> AppState" where
  "window_open url s = s\<lparr>opened := opened s @ [url]\<rparr>"

text \<open>The two callbacks handed to \<^verbatim>\<open>getCurrentPosition\<close>, with the query they close over.\<close>

definition geo_success :: "AppState \<Rightarrow> string \<Rightarrow> Clock \<Rightarrow> real \<Rightarrow> real \<Rightarrow> AppState \<Rightarrow> AppState" where
  "geo_success snap query clk latitude longitude s =
     (let url = buildMapsSearchUrl latitude longitude query;
          s1 = s\<lparr>geoStatus := msg_ready @ query\<rparr>;
          s2 = saveEnergy snap clk txt_go_nearby s1
      in window_open url s2)"

definition geo_error :: "string \<Rightarrow> int \<Rightarrow> AppState \<Rightarrow> AppState" where
  "geo_error query code s =
     (let msg = (if code = 1 then msg_denied else msg_failed);
          s1 = s\<lparr>geoStatus := msg @ msg_manual\<rparr>
      in window_open (MapsSearch query) s1)"

text \<open>
  \<^verbatim>\<open>openMapsNearby\<close>, with the geolocation callback run at once on the state the
  request left behind. \<open>r1\<close>, \<open>r2\<close>, \<open>r3\<close> are the random outcomes for the query.
\<close>

definition openMapsNearby :: "real \<Rightarrow> real \<Rightarrow> real \<Rightarrow> Clock \<Rightarrow> GeoOutcome \<Rightarrow> AppState \<Rightarrow> AppState" where
  "openMapsNearby r1 r2 r3 clk geo s =
     (let query = buildMapsQuery r1 r2 r3 (tags_of s);
          s1 = s\<lparr>geoStatus := msg_locating\<rparr>
      in case geo of
           GeoUnsupported \<Rightarrow> window_open (MapsSearch query) (s1\<lparr>geoStatus := msg_unsupported\<rparr>)
         | GeoSuccess latitude longitude \<Rightarrow> geo_success s query clk latitude longitude s1
         | GeoError code \<Rightarrow> geo_error query code s1)"

subsection \<open>What the rendered controls do\<close>

text \<open>
  \<^verbatim>\<open>PrimaryButton\<close> ignores a click while \<^verbatim>\<open>disabled\<close>. (Its long-press guard only
  matters for a button that has both handlers; no button of \<^verbatim>\<open>App\<close> has.)
\<close>

definition PrimaryButton_click :: "bool \<Rightarrow> (AppState \<Rightarrow> AppState) \<Rightarrow> AppState \<Rightarrow> AppState" where
  "PrimaryButton_click disabled onClick s = (if disabled then s else onClick s)"

datatype Event =
    ClickStart
  | PressDown
  | PressUp
  | PressTimeout real real real real
  | ClickTemp Temp
  | ClickForm Form
  | SlideRichness real
  | ClickSpeed Speed
  | ClickNext
  | ClickBack
  | ClickOpenLog
  | ClickShowNearby
  | ClickReconsider
  | LongPressRandom real real real real
  | ClickOpenMaps real real real Clock GeoOutcome
  | ClickPlace nat Clock
  | ClickViewLog
  | ClickGoHome
  | ClickClearLog
  | ClickAgain
  | ClickLogHome

text \<open>
  One user event on the rendered tree. A control exists only on the screen (and choose
  step) that renders it; elsewhere the event changes nothing. The back button of the
  top bar takes no pointer events on the home and result screens, and the log button
  is rendered only while the log is not empty. \<open>ClickPlace i\<close> is a click on the
  \<open>i\<close>-th card of the recommend screen.
\<close>

definition dispatch :: "Event \<Rightarrow> AppState \<Rightarrow> AppState" where
  "dispatch ev s =
     (case ev of
        ClickBack \<Rightarrow> if screen s \<noteq> Home \<and> screen s \<noteq> State then goBack s else s
      | ClickOpenLog \<Rightarrow> if length (log_entries s) > 0 then s\<lparr>screen := Log\<rparr> else s
      | PressTimeout r1 r2 r3 r4 \<Rightarrow> pressTimeout r1 r2 r3 r4 s
      | ClickStart \<Rightarrow> if screen s = Home then PrimaryButton_click False startDecision s else s
      | PressDown \<Rightarrow> if screen s = Home then handlePressDown s else s
      | PressUp \<Rightarrow> if screen s = Home then handlePressUp s else s
      | ClickTemp t \<Rightarrow>
          if screen s = Choose \<and> chooseStep s = 0 then s\<lparr>temp := Some t\<rparr> else s
      | ClickForm f \<Rightarrow>
          if screen s = Choose \<and> chooseStep s = 1 then s\<lparr>form := Some f\<rparr> else s
      | SlideRichness r \<Rightarrow>
          if screen s = Choose \<and> chooseStep s = 2 then s\<lparr>richness := r\<rparr> else s
      | ClickSpeed sp \<Rightarrow>
          if screen s = Choose \<and> chooseStep s = 2 then s\<lparr>speed := Some sp\<rparr> else s
      | ClickNext \<Rightarrow>
          if screen s = Choose \<and> chooseStep s = 0
            then PrimaryButton_click (temp s = None) nextChoose s
          else if screen s = Choose \<and> chooseStep s = 1
            then PrimaryButton_click (form s = None) nextChoose s
          else if screen s = Choose \<and> chooseStep s = 2
            then PrimaryButton_click (speed s = None) nextChoose s
          else s
      | ClickShowNearby \<Rightarrow>
          if screen s = State then PrimaryButton_click False (\<lambda>s. s\<lparr>screen := Recommend\<rparr>) s
          else s
      | ClickReconsider \<Rightarrow>
          if screen s = State
          then PrimaryButton_click False (\<lambda>s. s\<lparr>chooseStep := 0, screen := Choose\<rparr>) s
          else s
      | LongPressRandom r1 r2 r3 r4 \<Rightarrow>
          if screen s = State
          then ((randomizeAll r1 r2 r3 r4 (s\<lparr>pressing := True\<rparr>))\<lparr>pressing := False\<rparr>)
                 \<lparr>screen := State\<rparr>
          else s
      | ClickOpenMaps r1 r2 r3 clk geo \<Rightarrow>
          if screen s = Recommend
          then PrimaryButton_click False (openMapsNearby r1 r2 r3 clk geo) s
          else s
      | ClickPlace i clk \<Rightarrow>
          if screen s = Recommend \<and> i < length (filteredPlaces s)
          then (saveEnergy s clk (p_name (filteredPlaces s ! i)) s)\<lparr>screen := Energy\<rparr>
          else s
      | ClickViewLog \<Rightarrow>
          if screen s = Energy then PrimaryButton_click False (\<lambda>s. s\<lparr>screen := Log\<rparr>) s
          else s
      | ClickGoHome \<Rightarrow> if screen s = Energy then PrimaryButton_click False goHome s else s
      | ClickClearLog \<Rightarrow> if screen s = Log then clearLog s else s
      | ClickAgain \<Rightarrow> if screen s = Log then PrimaryButton_click False goHome s else s
      | ClickLogHome \<Rightarrow>
          if screen s = Log then PrimaryButton_click False (\<lambda>s. s\<lparr>screen := Home\<rparr>) s
          else s)"

definition run :: "Event list \<Rightarrow> AppState \<Rightarrow> AppState" where
  "run evs s = foldl (\<lambda>s ev. dispatch ev s) s evs"

subsection \<open>Start-up and the persisting effect\<close>

text \<open>
  The first render: the log cell is initialised from the stored slot, every other cell
  from its literal. After a render in which the log changed, the effect writes the
  whole log back; the state is not touched by it.
\<close>

definition startup :: "(string \<Rightarrow> Exn + LogEntry list) \<Rightarrow> Storage \<Rightarrow> Exn + AppState" where
  "startup parse st =
     (case read_log parse st of
        Inl e \<Rightarrow> Inl e
      | Inr lg \<Rightarrow> Inr (initial_state lg))"

definition persist_effect :: "(LogEntry list \<Rightarrow> string) \<Rightarrow> AppState \<Rightarrow> Storage \<Rightarrow> Exn + AppState \<times> Storage" where
  "persist_effect stringify s st =
     (case write_log stringify (log_entries s) st of
        Inl e \<Rightarrow> Inl e
      | Inr st' \<Rightarrow> Inr (s, st'))"

subsection \<open>Example inputs\<close>

definition example_clock :: Clock where
  "example_clock = \<lparr>now_ms = 1700000000000, now_iso = ''2023-11-14T22:13:20.000Z''\<rparr>"

text \<open>The state on the recommend screen after answering hot, soup, 0.9, fast.\<close>

definition example_recommend :: AppState where
  "example_recommend =
     run [ClickStart, ClickTemp Hot, ClickNext, ClickForm Soup, ClickNext,
          SlideRichness 0.9, ClickSpeed Fast, ClickNext, ClickShowNearby]
       (initial_state [])"

text \<open>
  A home screen with the answers of an earlier round still in place: cold, dry, 0.9,
  sit were answered, the first card was chosen, and the log screen's plain home button,
  which does not reset, led back.
\<close>

definition example_stale_home :: AppState where
  "example_stale_home =
     run [ClickStart, ClickTemp Cold, ClickNext, ClickForm Dry, ClickNext,
          SlideRichness 0.9, ClickSpeed Sit, ClickNext, ClickShowNearby,
          ClickPlace 0 example_clock, ClickViewLog, ClickLogHome]
       (initial_state [])"

text \<open>A store whose slot holds text that is not JSON and that refuses writes.\<close>

definition example_storage :: Storage where
  "example_storage = \<lparr>slot = Some ''{broken'', readable = True, writable = False\<rparr>"
section \<open>Properties of the derivation\<close>

lemmas label_defs =
  lbl_hot_def lbl_cold_def lbl_soup_def lbl_dry_def lbl_rich_def lbl_light_def
  lbl_fast_def lbl_sit_def

lemmas pref_text_defs = txt_prefer_light_def txt_prefer_rich_def txt_either_def

lemma pref_texts_distinct:
  "txt_prefer_light \<noteq> txt_prefer_rich" "txt_prefer_light \<noteq> txt_either"
  "txt_prefer_rich \<noteq> txt_either"
  by (simp_all add: pref_text_defs)

text \<open>
  Claim C3. For every richness, \<^verbatim>\<open>computeTags\<close> derives the style rich exactly when the
  richness is at least 0.55 (the boundary itself is rich) and light otherwise. The tag
  list is the temperature label (absent when unset), the form label (absent when
  unset), the style label (always there), the pace label (absent when unset), in this
  order.
\<close>

theorem computeTags_style_and_order:
  "(style (computeTags t f r sp) = Rich \<longleftrightarrow> r \<ge> 0.55)
   \<and> (style (computeTags t f r sp) = Light \<longleftrightarrow> r < 0.55)
   \<and> style (computeTags t f 0.55 sp) = Rich
   \<and> tags (computeTags t f r sp) =
       (case t of None \<Rightarrow> [] | Some Hot \<Rightarrow> [lbl_hot] | Some Cold \<Rightarrow> [lbl_cold])
       @ (case f of None \<Rightarrow> [] | Some Soup \<Rightarrow> [lbl_soup] | Some Dry \<Rightarrow> [lbl_dry])
       @ [case style (computeTags t f r sp) of Rich \<Rightarrow> lbl_rich | Light \<Rightarrow> lbl_light]
       @ (case sp of None \<Rightarrow> [] | Some Fast \<Rightarrow> [lbl_fast] | Some Sit \<Rightarrow> [lbl_sit])"
  by (simp add: computeTags_def Let_def split: option.split Temp.split Form.split Speed.split)

text \<open>
  Claim C8. The preference text is the "lighter" text exactly below 0.4, the "heavier"
  text exactly above 0.6, and the neutral text exactly on the closed band from 0.4 to
  0.6. The band is not the style cutoff: at 0.58 the style is already rich while the
  text is still neutral.
\<close>

theorem preferenceText_bands:
  "(preferenceText r = txt_prefer_light \<longleftrightarrow> r < 0.4)
   \<and> (preferenceText r = txt_prefer_rich \<longleftrightarrow> r > 0.6)
   \<and> (preferenceText r = txt_either \<longleftrightarrow> 0.4 \<le> r \<and> r \<le> 0.6)
   \<and> preferenceText 0.58 = txt_either \<and> style (computeTags t f 0.58 sp) = Rich"
  using pref_texts_distinct
  by (auto simp: preferenceText_def computeTags_def Let_def)


section \<open>Properties of the filter engine\<close>

lemma with_distance_simps:
  "Place.truncate (with_distance p d) = p"
  "distance (with_distance p d) = d"
  by (simp_all add: with_distance_def Place.defs NearbyPlace.defs)


lemma annotate_places:
  "map Place.truncate
     (map (\<lambda>(idx, p). with_distance p (h idx)) (enumerate 0 xs)) = xs"
  by (simp add: comp_def case_prod_unfold with_distance_simps map_snd_enumerate)


lemma length_mockPlaces: "length mockPlaces = 8"
  by (simp add: mockPlaces_def)

lemma length_fallback: "length (fallback t) \<le> 8"
  unfolding fallback_def using length_filter_le [of _ mockPlaces]
  by (simp add: length_mockPlaces)

lemma fallback_nonempty: "fallback t \<noteq> []"
proof (cases t)
  case None
  then show ?thesis by (simp add: fallback_def mockPlaces_def)
next
  case (Some x)
  then show ?thesis by (cases x) (simp_all add: fallback_def mockPlaces_def)
qed





















text \<open>
  Claim C4. When no place passes the four predicates, the result is not empty and
  holds exactly the places whose temperature matches, in their stored order (every
  place when the temperature is unset): form, pace and style play no part.
\<close>

theorem filterPlaces_fallback:
  assumes "candidates t f sp sty = []"
  shows "filterPlaces t f sp sty \<noteq> []
    \<and> map Place.truncate (filterPlaces t f sp sty) =
           filter (\<lambda>p. case t of None \<Rightarrow> True | Some x \<Rightarrow> p_type p = x) mockPlaces
    \<and> (t = None \<longrightarrow> map Place.truncate (filterPlaces t f sp sty) = mockPlaces)"
proof -
  have m: "map Place.truncate (filterPlaces t f sp sty) = fallback t"
    unfolding filterPlaces_def annotate_places using assms length_fallback [of t] by simp
  from m fallback_nonempty [of t] have ne: "filterPlaces t f sp sty \<noteq> []"
    by auto
  from m have eq: "map Place.truncate (filterPlaces t f sp sty) =
           filter (\<lambda>p. case t of None \<Rightarrow> True | Some x \<Rightarrow> p_type p = x) mockPlaces"
    by (simp add: fallback_def)
  have "map Place.truncate (filterPlaces t f sp sty) = mockPlaces" if "t = None"
    using eq that by simp
  with ne eq show ?thesis by blast
qed

theorem filterPlaces_fallback_witness:
  "candidates (Some Cold) (Some Soup) None Rich = []
   \<and> filterPlaces (Some Cold) (Some Soup) None Rich \<noteq> []
   \<and> map Place.truncate (filterPlaces (Some Cold) (Some Soup) None Rich)
       = [mockPlaces ! 2, mockPlaces ! 7]
   \<and> candidates None (Some Soup) (Some Fast) Rich = []
   \<and> map Place.truncate (filterPlaces None (Some Soup) (Some Fast) Rich) = mockPlaces"
proof -
  have c1: "candidates (Some Cold) (Some Soup) None Rich = []"
    by (simp add: candidates_def mockPlaces_def)
  have c2: "candidates None (Some Soup) (Some Fast) Rich = []"
    by (simp add: candidates_def mockPlaces_def)
  have "map Place.truncate (filterPlaces (Some Cold) (Some Soup) None Rich)
       = [mockPlaces ! 2, mockPlaces ! 7]"
    using filterPlaces_fallback [OF c1] by (simp add: mockPlaces_def)
  with c1 c2 filterPlaces_fallback [OF c1] filterPlaces_fallback [OF c2]
  show ?thesis by simp
qed

section \<open>Properties of the query builder\<close>

lemmas keyword_defs =
  kw_mala_hotpot_def kw_beef_noodles_def kw_ramen_def kw_hot_sour_soup_def
  kw_clear_noodle_soup_def kw_congee_def kw_miso_soup_def kw_udon_def
  kw_pork_rice_def kw_curry_rice_def kw_donburi_def kw_fried_chicken_def
  kw_salad_def kw_healthy_box_def kw_pho_def kw_cold_noodles_def kw_sashimi_def
  kw_restaurant_def kw_snack_def kw_bento_def kw_noodles_def

lemma pool_of_eq:
  "pool_of tgs =
     (if lbl_rich \<in> set tgs \<and> lbl_soup \<in> set tgs \<and> lbl_hot \<in> set tgs
      then [kw_mala_hotpot, kw_beef_noodles, kw_ramen, kw_hot_sour_soup] else [])
     @ (if lbl_light \<in> set tgs \<and> lbl_soup \<in> set tgs \<and> lbl_hot \<in> set tgs
        then [kw_clear_noodle_soup, kw_congee, kw_miso_soup, kw_udon] else [])
     @ (if lbl_rich \<in> set tgs \<and> lbl_dry \<in> set tgs \<and> lbl_hot \<in> set tgs
        then [kw_pork_rice, kw_curry_rice, kw_donburi, kw_fried_chicken] else [])
     @ (if lbl_light \<in> set tgs \<and> lbl_dry \<in> set tgs
        then [kw_salad, kw_healthy_box, kw_pho, kw_cold_noodles] else [])
     @ (if lbl_cold \<in> set tgs then [kw_salad, kw_cold_noodles, kw_sashimi] else [])
     @ (if (lbl_rich \<in> set tgs \<and> lbl_soup \<in> set tgs \<and> lbl_hot \<in> set tgs)
           \<or> (lbl_light \<in> set tgs \<and> lbl_soup \<in> set tgs \<and> lbl_hot \<in> set tgs)
           \<or> (lbl_rich \<in> set tgs \<and> lbl_dry \<in> set tgs \<and> lbl_hot \<in> set tgs)
           \<or> (lbl_light \<in> set tgs \<and> lbl_dry \<in> set tgs)
           \<or> lbl_cold \<in> set tgs
        then [] else [kw_restaurant, kw_snack, kw_bento, kw_noodles])"
  by (auto simp: pool_of_def Let_def)

lemma pool_of_nonempty: "pool_of tgs \<noteq> []"
  by (simp add: pool_of_def Let_def)

lemma pool_of_keywords:
  "set (pool_of tgs) \<subseteq>
     {kw_mala_hotpot, kw_beef_noodles, kw_ramen, kw_hot_sour_soup,
      kw_clear_noodle_soup, kw_congee, kw_miso_soup, kw_udon,
      kw_pork_rice, kw_curry_rice, kw_donburi, kw_fried_chicken,
      kw_salad, kw_healthy_box, kw_pho, kw_cold_noodles, kw_sashimi,
      kw_restaurant, kw_snack, kw_bento, kw_noodles}"
  unfolding pool_of_eq by (simp only: set_append split: if_split) auto

lemma keyword_wellformed:
  assumes "k \<in> {kw_mala_hotpot, kw_beef_noodles, kw_ramen, kw_hot_sour_soup,
      kw_clear_noodle_soup, kw_congee, kw_miso_soup, kw_udon,
      kw_pork_rice, kw_curry_rice, kw_donburi, kw_fried_chicken,
      kw_salad, kw_healthy_box, kw_pho, kw_cold_noodles, kw_sashimi,
      kw_restaurant, kw_snack, kw_bento, kw_noodles}"
  shows "k \<noteq> [] \<and> CHR '' '' \<notin> set k"
  using assms by (auto simp: keyword_defs)

lemma pool_keyword_wellformed:
  "k \<in> set (pool_of tgs) \<Longrightarrow> k \<noteq> [] \<and> CHR '' '' \<notin> set k"
  using pool_of_keywords [of tgs] keyword_wellformed [of k] by blast

lemma pick_in_range:
  assumes "0 \<le> r" "r < 1" "arr \<noteq> []"
  shows "\<exists>k \<in> set arr. pick r arr = Some k"
proof -
  let ?n = "length arr"
  let ?i = "\<lfloor>r * real ?n\<rfloor>"
  from assms have n: "0 < real ?n" by simp
  from assms(1) have "0 \<le> r * real ?n" by simp
  then have lo: "0 \<le> ?i" by simp
  from assms(2) n have "r * real ?n < real ?n"
    by (simp add: mult_less_cancel_right2)
  then have "r * real ?n < of_int (int ?n)" by simp
  then have hi: "?i < int ?n" by (simp only: floor_less_iff)
  from lo hi have "nat ?i < ?n" by linarith
  then have "arr ! nat ?i \<in> set arr" by simp
  moreover from lo hi have "pick r arr = Some (arr ! nat ?i)"
    by (simp add: pick_def Let_def)
  ultimately show ?thesis by blast
qed

lemma query_of_one_pick:
  assumes "k1 \<noteq> []"
  shows "join '' '' (Set_from [] (filter_Boolean [Some k1, Some []])) = k1"
  using assms by simp

lemma query_of_two_picks:
  assumes "k1 \<noteq> []" "k2 \<noteq> []"
  shows "join '' '' (Set_from [] (filter_Boolean [Some k1, Some k2])) =
           (if k2 = k1 then k1 else k1 @ '' '' @ k2)"
  using assms by simp

text \<open>
  Claim C7. For every tag list and every outcome of the random source (each draw a
  number from 0 up to but excluding 1), \<^verbatim>\<open>buildMapsQuery\<close> returns a non-empty string
  that is either one keyword of the pool or two different keywords of the pool with one
  space between them. The pool is the concatenation of the keyword groups of the
  combinations that hold (rich soup hot, light soup hot, rich dry hot, light dry, cold),
  and the generic group exactly when none holds. No keyword is empty or has a space.
\<close>

theorem buildMapsQuery_keywords:
  assumes "0 \<le> r1" "r1 < 1" "0 \<le> r2" "r2 < 1" "0 \<le> r3" "r3 < 1"
  shows "buildMapsQuery r1 r2 r3 tgs \<noteq> []
    \<and> ((\<exists>k \<in> set (pool_of tgs). buildMapsQuery r1 r2 r3 tgs = k)
        \<or> (\<exists>k1 \<in> set (pool_of tgs). \<exists>k2 \<in> set (pool_of tgs).
              k1 \<noteq> k2 \<and> buildMapsQuery r1 r2 r3 tgs = k1 @ '' '' @ k2))
    \<and> (\<forall>k \<in> set (pool_of tgs). k \<noteq> [] \<and> CHR '' '' \<notin> set k)
    \<and> pool_of tgs =
        (if lbl_rich \<in> set tgs \<and> lbl_soup \<in> set tgs \<and> lbl_hot \<in> set tgs
         then [kw_mala_hotpot, kw_beef_noodles, kw_ramen, kw_hot_sour_soup] else [])
        @ (if lbl_light \<in> set tgs \<and> lbl_soup \<in> set tgs \<and> lbl_hot \<in> set tgs
           then [kw_clear_noodle_soup, kw_congee, kw_miso_soup, kw_udon] else [])
        @ (if lbl_rich \<in> set tgs \<and> lbl_dry \<in> set tgs \<and> lbl_hot \<in> set tgs
           then [kw_pork_rice, kw_curry_rice, kw_donburi, kw_fried_chicken] else [])
        @ (if lbl_light \<in> set tgs \<and> lbl_dry \<in> set tgs
           then [kw_salad, kw_healthy_box, kw_pho, kw_cold_noodles] else [])
        @ (if lbl_cold \<in> set tgs then [kw_salad, kw_cold_noodles, kw_sashimi] else [])
        @ (if (lbl_rich \<in> set tgs \<and> lbl_soup \<in> set tgs \<and> lbl_hot \<in> set tgs)
              \<or> (lbl_light \<in> set tgs \<and> lbl_soup \<in> set tgs \<and> lbl_hot \<in> set tgs)
              \<or> (lbl_rich \<in> set tgs \<and> lbl_dry \<in> set tgs \<and> lbl_hot \<in> set tgs)
              \<or> (lbl_light \<in> set tgs \<and> lbl_dry \<in> set tgs)
              \<or> lbl_cold \<in> set tgs
           then [] else [kw_restaurant, kw_snack, kw_bento, kw_noodles])"
proof -
  let ?q = "buildMapsQuery r1 r2 r3 tgs"
  from pick_in_range [OF assms(1,2) pool_of_nonempty]
  obtain k1 where k1: "k1 \<in> set (pool_of tgs)" "pick r1 (pool_of tgs) = Some k1"
    by blast
  from pick_in_range [OF assms(5,6) pool_of_nonempty]
  obtain k2 where k2: "k2 \<in> set (pool_of tgs)" "pick r3 (pool_of tgs) = Some k2"
    by blast
  from pool_keyword_wellformed [OF k1(1)] have ne1: "k1 \<noteq> []" by simp
  from pool_keyword_wellformed [OF k2(1)] have ne2: "k2 \<noteq> []" by simp
  have q: "?q = (if r2 > 0.55 \<and> k2 \<noteq> k1 then k1 @ '' '' @ k2 else k1)"
  proof (cases "r2 > 0.55")
    case True
    then have "?q = join '' '' (Set_from [] (filter_Boolean [Some k1, Some k2]))"
      by (simp only: buildMapsQuery_def Let_def k1(2) k2(2) if_True)
    also have "\<dots> = (if k2 = k1 then k1 else k1 @ '' '' @ k2)"
      by (rule query_of_two_picks [OF ne1 ne2])
    finally show ?thesis using True by (cases "k2 = k1") simp_all
  next
    case False
    then have "?q = join '' '' (Set_from [] (filter_Boolean [Some k1, Some []]))"
      by (simp only: buildMapsQuery_def Let_def k1(2) k2(2) if_False)
    also have "\<dots> = k1"
      by (rule query_of_one_pick [OF ne1])
    finally show ?thesis using False by simp
  qed
  from q ne1 have a: "?q \<noteq> []" by simp
  have b: "(\<exists>k \<in> set (pool_of tgs). ?q = k)
        \<or> (\<exists>k1 \<in> set (pool_of tgs). \<exists>k2 \<in> set (pool_of tgs).
              k1 \<noteq> k2 \<and> ?q = k1 @ '' '' @ k2)"
  proof (cases "r2 > 0.55 \<and> k2 \<noteq> k1")
    case True
    with q have "k1 \<noteq> k2 \<and> ?q = k1 @ '' '' @ k2" by auto
    then have "\<exists>k2 \<in> set (pool_of tgs). k1 \<noteq> k2 \<and> ?q = k1 @ '' '' @ k2"
      by (rule bexI [OF _ k2(1)])
    then have "\<exists>k1 \<in> set (pool_of tgs). \<exists>k2 \<in> set (pool_of tgs).
              k1 \<noteq> k2 \<and> ?q = k1 @ '' '' @ k2"
      by (rule bexI [OF _ k1(1)])
    then show ?thesis by (rule disjI2)
  next
    case False
    with q have "?q = k1" by simp
    then have "\<exists>k \<in> set (pool_of tgs). ?q = k"
      by (rule bexI [OF _ k1(1)])
    then show ?thesis by (rule disjI1)
  qed
  have c: "\<forall>k \<in> set (pool_of tgs). k \<noteq> [] \<and> CHR '' '' \<notin> set k"
  proof (rule ballI)
    fix k assume "k \<in> set (pool_of tgs)"
    then show "k \<noteq> [] \<and> CHR '' '' \<notin> set k"
      by (rule pool_keyword_wellformed)
  qed
  show ?thesis
    by (intro conjI) (rule a, rule b, rule c, rule pool_of_eq)
qed

theorem buildMapsQuery_keywords_witness:
  "buildMapsQuery 0 0.9 0.5 [lbl_hot, lbl_soup, lbl_rich] = kw_mala_hotpot @ '' '' @ kw_ramen
   \<and> buildMapsQuery 0 0.9 0.5 [lbl_hot, lbl_soup, lbl_rich] \<noteq> []
   \<and> buildMapsQuery 0 0.2 0.5 [lbl_cold, lbl_dry, lbl_light] = kw_salad
   \<and> pool_of [] = [kw_restaurant, kw_snack, kw_bento, kw_noodles]"
proof -
  have p1: "pool_of [lbl_hot, lbl_soup, lbl_rich]
      = [kw_mala_hotpot, kw_beef_noodles, kw_ramen, kw_hot_sour_soup]"
    by (simp add: pool_of_def Let_def label_defs)
  have p2: "pool_of [lbl_cold, lbl_dry, lbl_light]
      = [kw_salad, kw_healthy_box, kw_pho, kw_cold_noodles, kw_salad, kw_cold_noodles, kw_sashimi]"
    by (simp add: pool_of_def Let_def label_defs)
  have d: "kw_ramen \<noteq> kw_mala_hotpot" "kw_mala_hotpot \<noteq> []" "kw_ramen \<noteq> []"
    "kw_salad \<noteq> []"
    by (simp_all add: keyword_defs)
  have q1: "buildMapsQuery 0 0.9 0.5 [lbl_hot, lbl_soup, lbl_rich]
      = kw_mala_hotpot @ '' '' @ kw_ramen"
    unfolding buildMapsQuery_def p1 using d by (simp add: pick_def Let_def)
  have q2: "buildMapsQuery 0 0.2 0.5 [lbl_cold, lbl_dry, lbl_light] = kw_salad"
    unfolding buildMapsQuery_def p2 using d by (simp add: pick_def Let_def)
  from buildMapsQuery_keywords [of 0 "0.9" "0.5" "[lbl_hot, lbl_soup, lbl_rich]"]
  have "buildMapsQuery 0 0.9 0.5 [lbl_hot, lbl_soup, lbl_rich] \<noteq> []"
    by simp
  moreover from buildMapsQuery_keywords [of 0 "0.2" "0.5" "[]"]
  have "pool_of [] = [kw_restaurant, kw_snack, kw_bento, kw_noodles]"
    by simp
  ultimately show ?thesis using q1 q2 by simp
qed

section \<open>Properties of the history log and the flow\<close>

lemmas handler_defs =
  PrimaryButton_click_def startDecision_def resetFlow_def nextChoose_def
  totalChooseSteps_def goHome_def

lemmas maps_defs =
  openMapsNearby_def geo_success_def geo_error_def window_open_def saveEnergy_def
  buildMapsSearchUrl_def

lemma example_recommend_eq:
  "example_recommend =
     \<lparr>log_entries = [], screen = Recommend, chooseStep = 2, temp = Some Hot,
      form = Some Soup, richness = 0.9, speed = Some Fast, pressing = False,
      pressTimer = False, geoStatus = [], opened = []\<rparr>"
  by (simp add: example_recommend_def run_def dispatch_def initial_state_def handler_defs)

lemma txt_go_nearby_nonempty: "txt_go_nearby \<noteq> []"
  by (simp add: txt_go_nearby_def)

text \<open>
  Claim C1, as amended. On the recommend screen, the external map action whose
  geolocation request succeeds prepends to the history log an entry with the fixed
  placeholder description and the current tags, and leaves the flow on the recommend
  screen.
\<close>

theorem openMaps_success_logs_and_stays:
  assumes "screen s = Recommend"
  shows "screen (dispatch (ClickOpenMaps r1 r2 r3 clk (GeoSuccess lat lng)) s) = Recommend
    \<and> log_entries (dispatch (ClickOpenMaps r1 r2 r3 clk (GeoSuccess lat lng)) s)
        = new_entry s clk txt_go_nearby # log_entries s
    \<and> e_choiceText (new_entry s clk txt_go_nearby) = txt_go_nearby
    \<and> e_tags (new_entry s clk txt_go_nearby) = tags_of s
    \<and> txt_go_nearby \<noteq> []"
  using assms txt_go_nearby_nonempty
  by (simp add: dispatch_def PrimaryButton_click_def maps_defs Let_def new_entry_def)

theorem openMaps_success_logs_and_stays_witness:
  "screen example_recommend = Recommend
   \<and> screen (dispatch (ClickOpenMaps 0 0.9 0.5 example_clock (GeoSuccess 25 121.5))
        example_recommend) = Recommend
   \<and> log_entries (dispatch (ClickOpenMaps 0 0.9 0.5 example_clock (GeoSuccess 25 121.5))
        example_recommend) = [new_entry example_recommend example_clock txt_go_nearby]"
proof -
  have r: "screen example_recommend = Recommend"
    by (simp add: example_recommend_eq)
  have l: "log_entries example_recommend = []"
    by (simp add: example_recommend_eq)
  from openMaps_success_logs_and_stays [OF r, of 0 "0.9" "0.5" example_clock 25 "121.5"] r l
  show ?thesis by simp
qed

text \<open>
  The claim as first stated fails: after a successful map action from the recommend
  screen of the example the flow is not on the saved screen, and when the device has
  no geolocation the same action appends nothing.
\<close>

theorem openMaps_to_saved_counterexample:
  "screen example_recommend = Recommend
   \<and> screen (dispatch (ClickOpenMaps 0 0.9 0.5 example_clock (GeoSuccess 25 121.5))
        example_recommend) \<noteq> Energy
   \<and> log_entries (dispatch (ClickOpenMaps 0 0.9 0.5 example_clock GeoUnsupported)
        example_recommend) = []"
  by (simp add: example_recommend_eq dispatch_def PrimaryButton_click_def maps_defs Let_def)

text \<open>
  Claim C5. Saving prepends: after saving A and then B the log reads B, A, then the
  entries it had before. Clearing leaves the empty log.
\<close>

theorem log_append_newest_first:
  "log_entries (saveEnergy sB clkB textB (saveEnergy sA clkA textA s))
     = new_entry sB clkB textB # new_entry sA clkA textA # log_entries s
   \<and> log_entries (clearLog (saveEnergy sB clkB textB (saveEnergy sA clkA textA s))) = []
   \<and> log_entries (clearLog s) = []"
  by (simp add: saveEnergy_def clearLog_def)

lemma example_stale_home_fields:
  "screen example_stale_home = Home"
  "chooseStep example_stale_home = 2"
  "temp example_stale_home = Some Cold"
  "form example_stale_home = Some Dry"
  "richness example_stale_home = 0.9"
  "speed example_stale_home = Some Sit"
  by (simp_all add: example_stale_home_def run_def dispatch_def initial_state_def handler_defs
        filteredPlaces_def filterPlaces_def candidates_def fallback_def mockPlaces_def
        style_of_def derived_of_def computeTags_def saveEnergy_def)

text \<open>
  Claim C6. On the choose screen the next button does nothing while the field of its
  step is unset: temperature at step 0, form at step 1, pace at step 2; once the field
  is set it moves to the next step, and from step 2 to the result screen. Richness
  plays no part. From any state on the home screen, whatever answers an earlier round
  left behind, the events start, hot, next, soup, next, fast, next pass through steps
  0, 1 and 2 and end on the result screen with richness 0.5 and the tags hot, soup,
  light, fast. The initial state is on the home screen.
\<close>

theorem choose_flow_gating:
  "(screen s = Choose \<and> chooseStep s = 0 \<longrightarrow>
      dispatch ClickNext s = (if temp s = None then s else s\<lparr>chooseStep := 1\<rparr>))
   \<and> (screen s = Choose \<and> chooseStep s = 1 \<longrightarrow>
      dispatch ClickNext s = (if form s = None then s else s\<lparr>chooseStep := 2\<rparr>))
   \<and> (screen s = Choose \<and> chooseStep s = 2 \<longrightarrow>
      dispatch ClickNext s = (if speed s = None then s else s\<lparr>screen := State\<rparr>))
   \<and> (screen h = Home \<longrightarrow>
        run [ClickStart] h
          = h\<lparr>screen := Choose, chooseStep := 0, temp := None, form := None,
               richness := 0.5, speed := None, pressing := False, pressTimer := False\<rparr>
      \<and> run [ClickStart, ClickTemp Hot, ClickNext] h
          = h\<lparr>screen := Choose, chooseStep := 1, temp := Some Hot, form := None,
               richness := 0.5, speed := None, pressing := False, pressTimer := False\<rparr>
      \<and> run [ClickStart, ClickTemp Hot, ClickNext, ClickForm Soup, ClickNext] h
          = h\<lparr>screen := Choose, chooseStep := 2, temp := Some Hot, form := Some Soup,
               richness := 0.5, speed := None, pressing := False, pressTimer := False\<rparr>
      \<and> run [ClickStart, ClickTemp Hot, ClickNext, ClickForm Soup, ClickNext,
              ClickSpeed Fast, ClickNext] h
          = h\<lparr>screen := State, chooseStep := 2, temp := Some Hot, form := Some Soup,
               richness := 0.5, speed := Some Fast, pressing := False, pressTimer := False\<rparr>
      \<and> richness (run [ClickStart, ClickTemp Hot, ClickNext, ClickForm Soup, ClickNext,
              ClickSpeed Fast, ClickNext] h) = 0.5
      \<and> tags_of (run [ClickStart, ClickTemp Hot, ClickNext, ClickForm Soup, ClickNext,
              ClickSpeed Fast, ClickNext] h)
          = [lbl_hot, lbl_soup, lbl_light, lbl_fast])
   \<and> screen (initial_state lg) = Home"
proof -
  have gate: "(screen s = Choose \<and> chooseStep s = 0 \<longrightarrow>
      dispatch ClickNext s = (if temp s = None then s else s\<lparr>chooseStep := 1\<rparr>))
   \<and> (screen s = Choose \<and> chooseStep s = 1 \<longrightarrow>
      dispatch ClickNext s = (if form s = None then s else s\<lparr>chooseStep := 2\<rparr>))
   \<and> (screen s = Choose \<and> chooseStep s = 2 \<longrightarrow>
      dispatch ClickNext s = (if speed s = None then s else s\<lparr>screen := State\<rparr>))"
    by (simp add: dispatch_def handler_defs)
  have trace: "run [ClickStart] h
          = h\<lparr>screen := Choose, chooseStep := 0, temp := None, form := None,
               richness := 0.5, speed := None, pressing := False, pressTimer := False\<rparr>
      \<and> run [ClickStart, ClickTemp Hot, ClickNext] h
          = h\<lparr>screen := Choose, chooseStep := 1, temp := Some Hot, form := None,
               richness := 0.5, speed := None, pressing := False, pressTimer := False\<rparr>
      \<and> run [ClickStart, ClickTemp Hot, ClickNext, ClickForm Soup, ClickNext] h
          = h\<lparr>screen := Choose, chooseStep := 2, temp := Some Hot, form := Some Soup,
               richness := 0.5, speed := None, pressing := False, pressTimer := False\<rparr>
      \<and> run [ClickStart, ClickTemp Hot, ClickNext, ClickForm Soup, ClickNext,
              ClickSpeed Fast, ClickNext] h
          = h\<lparr>screen := State, chooseStep := 2, temp := Some Hot, form := Some Soup,
               richness := 0.5, speed := Some Fast, pressing := False, pressTimer := False\<rparr>
      \<and> richness (run [ClickStart, ClickTemp Hot, ClickNext, ClickForm Soup, ClickNext,
              ClickSpeed Fast, ClickNext] h) = 0.5
      \<and> tags_of (run [ClickStart, ClickTemp Hot, ClickNext, ClickForm Soup, ClickNext,
              ClickSpeed Fast, ClickNext] h)
          = [lbl_hot, lbl_soup, lbl_light, lbl_fast]"
    if "screen h = Home"
    using that
    by (simp add: run_def dispatch_def handler_defs tags_of_def derived_of_def computeTags_def)
  have init: "screen (initial_state lg) = Home"
    by (simp add: initial_state_def)
  show ?thesis
    apply (rule conjI, rule gate [THEN conjunct1])
    apply (rule conjI, rule gate [THEN conjunct2, THEN conjunct1])
    apply (rule conjI, rule gate [THEN conjunct2, THEN conjunct2])
    apply (rule conjI, rule impI, erule trace)
    apply (rule init)
    done
qed

theorem choose_flow_gating_witness:
  "screen example_stale_home = Home
   \<and> temp example_stale_home = Some Cold
   \<and> form example_stale_home = Some Dry
   \<and> richness example_stale_home = 0.9
   \<and> speed example_stale_home = Some Sit
   \<and> screen (run [ClickStart, ClickTemp Hot, ClickNext, ClickForm Soup, ClickNext,
              ClickSpeed Fast, ClickNext] example_stale_home) = State
   \<and> tags_of (run [ClickStart, ClickTemp Hot, ClickNext, ClickForm Soup, ClickNext,
              ClickSpeed Fast, ClickNext] example_stale_home)
       = [lbl_hot, lbl_soup, lbl_light, lbl_fast]
   \<and> dispatch ClickNext (run [ClickStart] example_stale_home)
       = run [ClickStart] example_stale_home"
proof -
  note f = example_stale_home_fields
  note t = choose_flow_gating [of _ example_stale_home, THEN conjunct2, THEN conjunct2,
      THEN conjunct2, THEN conjunct1, rule_format, OF f(1)]
  have s0: "run [ClickStart] example_stale_home
      = example_stale_home\<lparr>screen := Choose, chooseStep := 0, temp := None, form := None,
               richness := 0.5, speed := None, pressing := False, pressTimer := False\<rparr>"
    using t by (rule conjunct1)
  have fin: "run [ClickStart, ClickTemp Hot, ClickNext, ClickForm Soup, ClickNext,
              ClickSpeed Fast, ClickNext] example_stale_home
      = example_stale_home\<lparr>screen := State, chooseStep := 2, temp := Some Hot,
               form := Some Soup, richness := 0.5, speed := Some Fast, pressing := False,
               pressTimer := False\<rparr>"
    using t by (rule conjunct2 [THEN conjunct2, THEN conjunct2, THEN conjunct1])
  have tg: "tags_of (run [ClickStart, ClickTemp Hot, ClickNext, ClickForm Soup, ClickNext,
              ClickSpeed Fast, ClickNext] example_stale_home)
       = [lbl_hot, lbl_soup, lbl_light, lbl_fast]"
    using t by (rule conjunct2 [THEN conjunct2, THEN conjunct2, THEN conjunct2, THEN conjunct2])
  have g: "dispatch ClickNext (run [ClickStart] example_stale_home)
       = run [ClickStart] example_stale_home"
    using choose_flow_gating [of "run [ClickStart] example_stale_home", THEN conjunct1]
    by (simp add: s0)
  have "screen (run [ClickStart, ClickTemp Hot, ClickNext, ClickForm Soup, ClickNext,
              ClickSpeed Fast, ClickNext] example_stale_home) = State"
    by (simp add: fin)
  with f tg g show ?thesis by simp
qed

text \<open>
  Claim C9. Start-up never raises: it always yields a state. When the store cannot be
  read, when the slot is missing, and when its text fails to parse, the log of that
  state is empty; a text that parses is taken as the log. The persisting effect never
  raises either and returns the state as it was; when the write fails the store is
  left as it was.
\<close>

theorem storage_failures_tolerated:
  "(\<exists>lg. startup parse st = Inr (initial_state lg))
   \<and> (\<not> readable st \<longrightarrow> startup parse st = Inr (initial_state []))
   \<and> (readable st \<and> slot st = None \<longrightarrow> startup parse st = Inr (initial_state []))
   \<and> (readable st \<and> slot st = Some raw \<and> parse raw = Inl e \<longrightarrow>
        startup parse st = Inr (initial_state []))
   \<and> (readable st \<and> slot st = Some raw \<and> raw \<noteq> [] \<and> parse raw = Inr lg \<longrightarrow>
        startup parse st = Inr (initial_state lg))
   \<and> (\<exists>st'. persist_effect stringify s st = Inr (s, st'))
   \<and> (\<not> writable st \<longrightarrow> persist_effect stringify s st = Inr (s, st))
   \<and> (writable st \<longrightarrow>
        persist_effect stringify s st = Inr (s, st\<lparr>slot := Some (stringify (log_entries s))\<rparr>))"
  by (auto simp: startup_def read_log_def read_log_try_def getItem_def persist_effect_def
        write_log_def setItem_def split: sum.splits option.splits)

theorem storage_failures_tolerated_witness:
  "startup (\<lambda>raw. Inl SyntaxError) example_storage = Inr (initial_state [])
   \<and> persist_effect (\<lambda>lg. ''[]'')
        (saveEnergy example_recommend example_clock [] example_recommend) example_storage
       = Inr (saveEnergy example_recommend example_clock [] example_recommend, example_storage)
   \<and> startup (\<lambda>raw. Inl SyntaxError) (example_storage\<lparr>readable := False\<rparr>)
       = Inr (initial_state [])"
  using storage_failures_tolerated [of "\<lambda>raw. Inl SyntaxError" example_storage "''{broken''"
      SyntaxError "[]" "\<lambda>lg. ''[]''"
      "saveEnergy example_recommend example_clock [] example_recommend"]
    storage_failures_tolerated [of "\<lambda>raw. Inl SyntaxError"
      "example_storage\<lparr>readable := False\<rparr>"]
  by (simp add: example_storage_def)

text \<open>
  Claim C10. When the device has no geolocation, and when the request is refused or
  fails, the map action leaves the history log as it was and still opens a map search
  without coordinates. On success it prepends one entry. So the log changes exactly on
  success. The same holds for the two callbacks run on any later state.
\<close>

theorem openMaps_log_frame:
  "log_entries (openMapsNearby r1 r2 r3 clk GeoUnsupported s) = log_entries s
   \<and> opened (openMapsNearby r1 r2 r3 clk GeoUnsupported s)
       = opened s @ [MapsSearch (buildMapsQuery r1 r2 r3 (tags_of s))]
   \<and> log_entries (openMapsNearby r1 r2 r3 clk (GeoError code) s) = log_entries s
   \<and> opened (openMapsNearby r1 r2 r3 clk (GeoError code) s)
       = opened s @ [MapsSearch (buildMapsQuery r1 r2 r3 (tags_of s))]
   \<and> log_entries (openMapsNearby r1 r2 r3 clk (GeoSuccess lat lng) s)
       = new_entry s clk txt_go_nearby # log_entries s
   \<and> opened (openMapsNearby r1 r2 r3 clk (GeoSuccess lat lng) s)
       = opened s @ [MapsSearchNear lat lng (buildMapsQuery r1 r2 r3 (tags_of s))]
   \<and> ((log_entries (openMapsNearby r1 r2 r3 clk geo s) \<noteq> log_entries s)
        = (\<exists>la lo. geo = GeoSuccess la lo))
   \<and> log_entries (geo_error q code s') = log_entries s'
   \<and> log_entries (geo_success snap q clk lat lng s') = new_entry snap clk txt_go_nearby # log_entries s'"
  by (cases geo) (simp_all add: maps_defs Let_def)

theorem openMaps_log_frame_witness:
  "log_entries (openMapsNearby 0 0.9 0.5 example_clock GeoUnsupported example_recommend) = []
   \<and> log_entries (openMapsNearby 0 0.9 0.5 example_clock (GeoError 1) example_recommend) = []
   \<and> length (log_entries
        (openMapsNearby 0 0.9 0.5 example_clock (GeoSuccess 25 121.5) example_recommend)) = 1"
  using openMaps_log_frame [of 0 "0.9" "0.5" example_clock example_recommend 1 25 "121.5"]
  by (simp add: example_recommend_eq)
end
